theory Spec2Isabelle
  imports Main
begin

section \<open>Python values, errors and iteration\<close>

text \<open>
  The module \<^verbatim>\<open>langchain_postgres/indexer/vectorstore_v2.py\<close> defines the abstract class
  \<^verbatim>\<open>VectorIndex\<close>: three abstract methods and nine default methods written in terms of
  them. Its class docstring carries a reference in-memory backend, \<^verbatim>\<open>DictIndex\<close>.

  Python is dynamically typed, so the arguments whose run-time shape decides a branch
  (\<^verbatim>\<open>filters\<close>, \<^verbatim>\<open>kwargs\<close>) are values of one universe. Identifiers are strings.
\<close>

type_synonym ident = string

datatype pyval =
    PyNone
  | PyStr string
  | PyInt int
  | PyList "pyval list"
  | PyDict "(string \<times> pyval) list"
  | PyObject string

text \<open>
  Truth value testing, as \<^verbatim>\<open>if filters:\<close> and \<^verbatim>\<open>if kwargs:\<close> perform it: \<^verbatim>\<open>None\<close>, zero
  and empty containers are false; an object without \<^verbatim>\<open>__bool__\<close> or \<^verbatim>\<open>__len__\<close> (a
  \<^verbatim>\<open>StructuredQuery\<close>) is true.
\<close>

fun truthy :: "pyval \<Rightarrow> bool" where
  "truthy PyNone = False"
| "truthy (PyStr s) = (s \<noteq> [])"
| "truthy (PyInt n) = (n \<noteq> 0)"
| "truthy (PyList xs) = (xs \<noteq> [])"
| "truthy (PyDict kvs) = (kvs \<noteq> [])"
| "truthy (PyObject _) = True"

datatype error =
    ValueError string
  | NameError string
  | TypeError string
  | KeyError string
  | AttributeError string
  | BackendError string

text \<open>
  A \<^verbatim>\<open>dict\<close> keeps insertion order, and assigning to a key that is present keeps its
  position. \<^verbatim>\<open>d[k]\<close> and \<^verbatim>\<open>del d[k]\<close> raise \<^verbatim>\<open>KeyError\<close> on a missing key.
\<close>

type_synonym 'v dict = "(string \<times> 'v) list"

fun dict_set :: "string \<Rightarrow> 'v \<Rightarrow> 'v dict \<Rightarrow> 'v dict" where
  "dict_set k v [] = [(k, v)]"
| "dict_set k v ((k', v') # d) =
     (if k = k' then (k, v) # d else (k', v') # dict_set k v d)"

fun dict_get :: "'v dict \<Rightarrow> string \<Rightarrow> error + 'v" where
  "dict_get [] k = Inl (KeyError k)"
| "dict_get ((k', v') # d) k = (if k = k' then Inr v' else dict_get d k)"

fun dict_del :: "'v dict \<Rightarrow> string \<Rightarrow> error + 'v dict" where
  "dict_del [] k = Inl (KeyError k)"
| "dict_del ((k', v') # d) k =
     (if k = k' then Inr d
      else (case dict_del d k of Inl e \<Rightarrow> Inl e | Inr d' \<Rightarrow> Inr ((k', v') # d')))"

definition dict_keys :: "'v dict \<Rightarrow> string list" where
  "dict_keys d = map fst d"

text \<open>
  The dict display \<^verbatim>\<open>{"filters": filters, **kwargs}\<close>: the first entry, then every entry
  of \<^verbatim>\<open>kwargs\<close> assigned in order.
\<close>

definition dict_display :: "string \<Rightarrow> 'v \<Rightarrow> 'v dict \<Rightarrow> 'v dict" where
  "dict_display k v kwargs = foldl (\<lambda>d (k', v'). dict_set k' v' d) [(k, v)] kwargs"

text \<open>
  What an iteration produces, step by step: it ends, yields an item and goes on, or raises.
  An iterable object supports either the synchronous protocol (\<^verbatim>\<open>__iter__\<close>: a list, a
  generator) or the asynchronous one (\<^verbatim>\<open>__aiter__\<close>: an async generator).
\<close>

datatype 'a generator = Stop | Yield 'a "'a generator" | Raise error

datatype 'a iterable = Iterable "'a generator" | AsyncIterable "'a generator"

fun of_list :: "'a list \<Rightarrow> 'a generator" where
  "of_list [] = Stop"
| "of_list (x # xs) = Yield x (of_list xs)"

text \<open>The items an iteration yields before it ends or raises, in order.\<close>

fun yielded :: "'a generator \<Rightarrow> 'a list" where
  "yielded Stop = []"
| "yielded (Yield x g) = x # yielded g"
| "yielded (Raise e) = []"

fun raised :: "'a generator \<Rightarrow> error option" where
  "raised Stop = None"
| "raised (Yield x g) = raised g"
| "raised (Raise e) = Some e"

text \<open>
  The loop \<^verbatim>\<open>for x in it: acc.append(x)\<close>: the items are appended to the accumulator in
  the order they are yielded; an exception leaves the loop.
\<close>

fun drain :: "'a generator \<Rightarrow> 'a list \<Rightarrow> error + 'a list" where
  "drain Stop acc = Inr acc"
| "drain (Yield x g) acc = drain g (acc @ [x])"
| "drain (Raise e) acc = Inl e"

text \<open>
  \<^verbatim>\<open>list(it)\<close> needs the synchronous protocol, \<^verbatim>\<open>async for\<close> the asynchronous one; the
  other kind of object is a \<^verbatim>\<open>TypeError\<close>.
\<close>

definition py_list :: "'a iterable \<Rightarrow> error + 'a list" where
  "py_list it =
     (case it of
        Iterable g \<Rightarrow> drain g []
      | AsyncIterable g \<Rightarrow> Inl (TypeError ''object is not iterable''))"

definition async_for_append :: "'a iterable \<Rightarrow> 'a list \<Rightarrow> error + 'a list" where
  "async_for_append it docs =
     (case it of
        AsyncIterable g \<Rightarrow> drain g docs
      | Iterable g \<Rightarrow> Inl (TypeError ''async for requires an object with __aiter__ method''))"

section \<open>Documents, responses, warnings\<close>

datatype document = Document (page_content: string)

text \<open>
  \<^verbatim>\<open>UpsertResponse\<close> and \<^verbatim>\<open>DeleteResponse\<close> are imported from \<^verbatim>\<open>langchain_core\<close>; both are
  \<^verbatim>\<open>{"succeeded": [...], "failed": [...]}\<close>.
\<close>

datatype response = Response (succeeded: "ident list") (failed: "ident list")

type_synonym UpsertResponse = response
type_synonym DeleteResponse = response

text \<open>A call of \<^verbatim>\<open>warnings.warn\<close>: the message text and the \<^verbatim>\<open>kwargs\<close> it prints.\<close>

datatype warning = UserWarning string "pyval dict"

definition only_ids_warning :: "pyval dict \<Rightarrow> warning" where
  "only_ids_warning kwargs =
     UserWarning ''Only deletion by ids is supported for this integration, all other arguments are ignored. Received kwargs='' kwargs"

section \<open>The abstract methods\<close>

text \<open>
  A backend supplies the abstract methods. \<^verbatim>\<open>delete_by_ids\<close> mutates the backend, so it
  takes the backend state and returns the new one. \<^verbatim>\<open>lazy_get_by_ids\<close> reads it: the
  iterable it returns is the one a caller sees when it consumes the result before any other
  call, as every default method below does.

  \<^verbatim>\<open>VectorIndex\<close> defines no \<^verbatim>\<open>adelete_by_ids\<close>, although \<^verbatim>\<open>adelete\<close> calls it: the attribute
  exists only when the subclass adds it, hence the option.
\<close>

record 'st backend =
  delete_by_ids :: "'st \<Rightarrow> ident iterable \<Rightarrow> (error + DeleteResponse) \<times> 'st"
  lazy_get_by_ids :: "'st \<Rightarrow> ident iterable \<Rightarrow> error + document iterable"
  adelete_by_ids :: "('st \<Rightarrow> ident iterable \<Rightarrow> (error + DeleteResponse) \<times> 'st) option"

section \<open>The default methods of VectorIndex\<close>

text \<open>
  Modelled from the spec: \<^verbatim>\<open>run_in_executor\<close> of \<^verbatim>\<open>langchain_core.runnables\<close>, which is not
  part of this repository. The default implementation hands the blocking primitive to an
  external executor and suspends the calling task until that executor completes; awaiting
  it gives what the primitive returns, or raises what it raises.
\<close>

definition run_in_executor :: "('a \<Rightarrow> 'b) \<Rightarrow> 'a \<Rightarrow> 'b" where
  "run_in_executor func arg = func arg"

definition alazy_get_by_ids :: "'st backend \<Rightarrow> 'st \<Rightarrow> ident iterable \<Rightarrow> error + document iterable" where
  "alazy_get_by_ids self st ids = run_in_executor (lazy_get_by_ids self st) ids"

definition get_by_ids :: "'st backend \<Rightarrow> 'st \<Rightarrow> ident iterable \<Rightarrow> error + document list" where
  "get_by_ids self st ids =
     (case lazy_get_by_ids self st ids of
        Inl e \<Rightarrow> Inl e
      | Inr it \<Rightarrow> py_list it)"

definition aget_by_ids :: "'st backend \<Rightarrow> 'st \<Rightarrow> ident iterable \<Rightarrow> error + document list" where
  "aget_by_ids self st ids =
     (case alazy_get_by_ids self st ids of
        Inl e \<Rightarrow> Inl e
      | Inr it \<Rightarrow> async_for_append it [])"

text \<open>
  \<^verbatim>\<open>delete_by_filter(self, *, filters=None, **kwargs)\<close> has no parameter \<^verbatim>\<open>ids\<close>. Its first
  statement, \<^verbatim>\<open>if ids is None\<close>, reads a name that is neither a parameter nor a local, is
  not bound at module level (the module binds its imports, \<^verbatim>\<open>Vector\<close> and \<^verbatim>\<open>VectorIndex\<close>)
  and is not a builtin. Reading it raises \<^verbatim>\<open>NameError\<close> before anything else runs. A
  keyword argument \<^verbatim>\<open>ids=...\<close> lands in \<^verbatim>\<open>kwargs\<close> and does not bind the name.
\<close>

definition module_names :: "string list" where
  "module_names =
     [''warnings'', ''ABC'', ''abstractmethod'', ''Any'', ''AsyncIterable'', ''Dict'',
      ''Iterable'', ''List'', ''Optional'', ''Union'', ''Document'', ''DeleteResponse'',
      ''UpsertResponse'', ''run_in_executor'', ''StructuredQuery'', ''Vector'',
      ''VectorIndex'']"

text \<open>
  Reading a name inside a function: the function's own bindings first, then the module's;
  a name bound in neither (and not a builtin, as \<^verbatim>\<open>ids\<close> is not) raises.
\<close>

definition load_name :: "pyval dict \<Rightarrow> string \<Rightarrow> error + pyval" where
  "load_name locals name =
     (case dict_get locals name of
        Inr v \<Rightarrow> Inr v
      | Inl _ \<Rightarrow>
          (if name \<in> set module_names then Inr (PyObject name)
           else Inl (NameError name)))"

text \<open>
  Iterating a value of the universe as identifiers, for the call
  \<^verbatim>\<open>self.delete_by_ids(ids)\<close> that \<^verbatim>\<open>delete_by_filter\<close> would make with the value of the name.
\<close>

fun ident_steps :: "pyval list \<Rightarrow> ident generator" where
  "ident_steps [] = Stop"
| "ident_steps (PyStr s # xs) = Yield s (ident_steps xs)"
| "ident_steps (_ # xs) = Raise (TypeError ''identifier is not a str'')"

fun iter_idents :: "pyval \<Rightarrow> ident iterable" where
  "iter_idents (PyList xs) = Iterable (ident_steps xs)"
| "iter_idents _ = Iterable (Raise (TypeError ''object is not iterable''))"

definition delete_by_filter ::
  "'st backend \<Rightarrow> 'st \<Rightarrow> pyval \<Rightarrow> pyval dict \<Rightarrow> warning list \<times> (error + DeleteResponse) \<times> 'st" where
  "delete_by_filter self st filters kwargs =
     (case load_name [(''self'', PyObject ''self''), (''filters'', filters), (''kwargs'', PyDict kwargs)] ''ids'' of
        Inl e \<Rightarrow> ([], Inl e, st)
      | Inr ids \<Rightarrow>
          (if ids = PyNone then ([], Inl (ValueError ''Must provide ids to delete.''), st)
           else
             (let kwargs' = (if truthy filters then dict_display ''filters'' filters kwargs else kwargs);
                  ws = (if kwargs' \<noteq> [] then [only_ids_warning kwargs'] else [])
              in (case delete_by_ids self st (iter_idents ids) of (r, st') \<Rightarrow> (ws, r, st')))))"

definition adelete ::
  "'st backend \<Rightarrow> 'st \<Rightarrow> ident iterable option \<Rightarrow> pyval \<Rightarrow> pyval dict
     \<Rightarrow> warning list \<times> (error + DeleteResponse) \<times> 'st" where
  "adelete self st ids filters kwargs =
     (case ids of
        None \<Rightarrow> ([], Inl (ValueError ''Must provide ids to delete.''), st)
      | Some ids' \<Rightarrow>
          (let kwargs' = (if truthy filters then dict_display ''filters'' filters kwargs else kwargs);
               ws = (if kwargs' \<noteq> [] then [only_ids_warning kwargs'] else [])
           in (case adelete_by_ids self of
                 None \<Rightarrow> (ws, Inl (AttributeError ''adelete_by_ids''), st)
               | Some f \<Rightarrow> (case f st ids' of (r, st') \<Rightarrow> (ws, r, st')))))"

definition lazy_get ::
  "'st backend \<Rightarrow> 'st \<Rightarrow> ident iterable option \<Rightarrow> pyval \<Rightarrow> pyval dict
     \<Rightarrow> warning list \<times> (error + document iterable)" where
  "lazy_get self st ids filters kwargs =
     (case ids of
        None \<Rightarrow> ([], Inl (ValueError ''Must provide ids to get.''))
      | Some ids' \<Rightarrow>
          (let kwargs' = (if truthy filters then dict_display ''filters'' filters kwargs else kwargs);
               ws = (if kwargs' \<noteq> [] then [only_ids_warning kwargs'] else [])
           in (ws, lazy_get_by_ids self st ids')))"

definition alazy_get ::
  "'st backend \<Rightarrow> 'st \<Rightarrow> ident iterable option \<Rightarrow> pyval \<Rightarrow> pyval dict
     \<Rightarrow> warning list \<times> (error + document iterable)" where
  "alazy_get self st ids filters kwargs =
     (case ids of
        None \<Rightarrow> ([], Inl (ValueError ''Must provide ids to get.''))
      | Some ids' \<Rightarrow>
          (let kwargs' = (if truthy filters then dict_display ''filters'' filters kwargs else kwargs);
               ws = (if kwargs' \<noteq> [] then [only_ids_warning kwargs'] else [])
           in (ws, alazy_get_by_ids self st ids')))"

definition get ::
  "'st backend \<Rightarrow> 'st \<Rightarrow> ident iterable option \<Rightarrow> pyval \<Rightarrow> pyval dict
     \<Rightarrow> warning list \<times> (error + document list)" where
  "get self st ids filters kwargs =
     (case lazy_get self st ids filters kwargs of
        (ws, Inl e) \<Rightarrow> (ws, Inl e)
      | (ws, Inr it) \<Rightarrow> (ws, py_list it))"

definition aget ::
  "'st backend \<Rightarrow> 'st \<Rightarrow> ident iterable option \<Rightarrow> pyval \<Rightarrow> pyval dict
     \<Rightarrow> warning list \<times> (error + document list)" where
  "aget self st ids filters kwargs =
     (case alazy_get self st ids filters kwargs of
        (ws, Inl e) \<Rightarrow> (ws, Inl e)
      | (ws, Inr it) \<Rightarrow> (ws, async_for_append it []))"

section \<open>The reference backend DictIndex\<close>

text \<open>
  The class docstring's in-memory backend: \<^verbatim>\<open>self.store\<close> is a \<^verbatim>\<open>dict\<close> from identifier to
  document. \<^verbatim>\<open>uuid4_generator\<close> yields fresh identifiers without end; the sequence it would
  yield is the parameter \<open>uuids\<close>, and \<^verbatim>\<open>zip\<close> takes as many of them as there are documents.
\<close>

type_synonym store = "document dict"

fun upsert_loop :: "(ident \<times> document) list \<Rightarrow> store \<Rightarrow> ident list \<Rightarrow> ident list \<times> store" where
  "upsert_loop [] store succ_ids = (succ_ids, store)"
| "upsert_loop ((i, doc) # ps) store succ_ids =
     upsert_loop ps (dict_set i doc store) (succ_ids @ [i])"

definition DictIndex_upsert ::
  "(nat \<Rightarrow> ident) \<Rightarrow> store \<Rightarrow> document list \<Rightarrow> ident list option \<Rightarrow> pyval dict
     \<Rightarrow> UpsertResponse \<times> store" where
  "DictIndex_upsert uuids store documents ids kwargs =
     (let ids' = (case ids of
                    Some (i # is) \<Rightarrow> i # is
                  | _ \<Rightarrow> map uuids [0 ..< length documents])
      in (case upsert_loop (zip ids' documents) store [] of
            (succ_ids, store') \<Rightarrow> (Response succ_ids [], store')))"

fun delete_loop ::
  "ident generator \<Rightarrow> store \<Rightarrow> ident list \<Rightarrow> ident list \<Rightarrow> (error + DeleteResponse) \<times> store" where
  "delete_loop Stop store succ_ids fail_ids = (Inr (Response succ_ids fail_ids), store)"
| "delete_loop (Yield i g) store succ_ids fail_ids =
     (case dict_del store i of
        Inl e \<Rightarrow> delete_loop g store succ_ids (fail_ids @ [i])
      | Inr store' \<Rightarrow> delete_loop g store' (succ_ids @ [i]) fail_ids)"
| "delete_loop (Raise e) store succ_ids fail_ids = (Inl e, store)"

definition DictIndex_delete_by_ids :: "store \<Rightarrow> ident iterable \<Rightarrow> (error + DeleteResponse) \<times> store" where
  "DictIndex_delete_by_ids store ids =
     (case ids of
        Iterable g \<Rightarrow> delete_loop g store [] []
      | AsyncIterable g \<Rightarrow> (Inl (TypeError ''object is not iterable''), store))"

text \<open>
  \<^verbatim>\<open>lazy_get_by_ids\<close> is a generator function: the call itself never raises, and the
  generator it returns raises where the loop body does.
\<close>

fun get_steps :: "store \<Rightarrow> ident generator \<Rightarrow> document generator" where
  "get_steps store Stop = Stop"
| "get_steps store (Yield i g) =
     (case dict_get store i of
        Inl e \<Rightarrow> Raise e
      | Inr doc \<Rightarrow> Yield doc (get_steps store g))"
| "get_steps store (Raise e) = Raise e"

definition DictIndex_lazy_get_by_ids :: "store \<Rightarrow> ident iterable \<Rightarrow> error + document iterable" where
  "DictIndex_lazy_get_by_ids store ids =
     Inr (Iterable
       (case ids of
          Iterable g \<Rightarrow> get_steps store g
        | AsyncIterable g \<Rightarrow> Raise (TypeError ''object is not iterable'')))"

text \<open>\<^verbatim>\<open>DictIndex\<close> as a backend of the default methods; it defines no \<^verbatim>\<open>adelete_by_ids\<close>.\<close>

definition DictIndex :: "store backend" where
  "DictIndex =
     \<lparr> delete_by_ids = DictIndex_delete_by_ids,
       lazy_get_by_ids = DictIndex_lazy_get_by_ids,
       adelete_by_ids = None \<rparr>"

text \<open>A Python list of identifiers passed as \<^verbatim>\<open>ids\<close>, and the same items from an async generator.\<close>

definition ids_list :: "ident list \<Rightarrow> ident iterable" where
  "ids_list xs = Iterable (of_list xs)"

definition ids_async :: "ident list \<Rightarrow> ident iterable" where
  "ids_async xs = AsyncIterable (of_list xs)"

text \<open>
  A sample of what \<^verbatim>\<open>uuid4_generator\<close> could yield, pairwise different, for evaluating
  \<^verbatim>\<open>upsert\<close> on concrete inputs.
\<close>

definition sample_uuids :: "nat \<Rightarrow> ident" where
  "sample_uuids n = replicate (Suc n) (CHR ''u'')"

section \<open>Auxiliary facts\<close>

lemma drain_raised: "drain g acc = (case raised g of None \<Rightarrow> Inr (acc @ yielded g) | Some e \<Rightarrow> Inl e)"
  by (induction g arbitrary: acc) (simp_all split: option.splits)

lemma yielded_of_list: "yielded (of_list xs) = xs"
  by (induction xs) simp_all

lemma raised_of_list: "raised (of_list xs) = None"
  by (induction xs) simp_all

lemma drain_of_list: "drain (of_list xs) acc = Inr (acc @ xs)"
  by (simp add: drain_raised yielded_of_list raised_of_list)

lemma dict_display_empty: "dict_display k v [] = [(k, v)]"
  by (simp add: dict_display_def)

lemma dict_set_not_Nil: "dict_set k v d \<noteq> []"
proof (cases d)
  case Nil
  then show ?thesis by simp
next
  case (Cons p d')
  then show ?thesis by (cases p) simp
qed

lemma foldl_dict_set_not_Nil: "d \<noteq> [] \<Longrightarrow> foldl (\<lambda>d (k', v'). dict_set k' v' d) d kwargs \<noteq> []"
proof (induction kwargs arbitrary: d)
  case Nil
  then show ?case by simp
next
  case (Cons p kwargs)
  obtain k v where p: "p = (k, v)" by (cases p)
  have "dict_set k v d \<noteq> []" by (rule dict_set_not_Nil)
  then have "foldl (\<lambda>d (k', v'). dict_set k' v' d) (dict_set k v d) kwargs \<noteq> []"
    by (rule Cons.IH)
  then show ?case by (simp add: p)
qed

lemma dict_display_not_Nil: "dict_display k v kwargs \<noteq> []"
  unfolding dict_display_def by (rule foldl_dict_set_not_Nil) simp

lemma dict_del_Inl: "(\<exists>e. dict_del d k = Inl e) \<longleftrightarrow> k \<notin> set (dict_keys d)"
proof (induction d)
  case Nil
  show ?case by (simp add: dict_keys_def)
next
  case (Cons p d)
  obtain k' v' where p: "p = (k', v')" by (cases p)
  show ?case
  proof (cases "k = k'")
    case True
    then show ?thesis by (simp add: p dict_keys_def)
  next
    case False
    have "(\<exists>e. dict_del (p # d) k = Inl e) \<longleftrightarrow> (\<exists>e. dict_del d k = Inl e)"
      using False by (cases "dict_del d k") (simp_all add: p)
    also have "\<dots> \<longleftrightarrow> k \<notin> set (dict_keys d)" by (rule Cons.IH)
    also have "\<dots> \<longleftrightarrow> k \<notin> set (dict_keys (p # d))"
      using False by (simp add: p dict_keys_def)
    finally show ?thesis .
  qed
qed

lemma dict_del_keys: "dict_del d k = Inr d' \<Longrightarrow> set (dict_keys d') \<subseteq> set (dict_keys d)"
proof (induction d arbitrary: d')
  case Nil
  then show ?case by simp
next
  case (Cons p d)
  obtain k' v' where p: "p = (k', v')" by (cases p)
  show ?case
  proof (cases "k = k'")
    case True
    with Cons.prems have "d' = d" by (simp add: p)
    then show ?thesis by (auto simp: dict_keys_def)
  next
    case False
    show ?thesis
    proof (cases "dict_del d k")
      case (Inl e)
      with Cons.prems False show ?thesis by (simp add: p)
    next
      case (Inr d2)
      with Cons.prems False have d': "d' = (k', v') # d2" by (simp add: p)
      from Cons.IH [OF Inr] show ?thesis by (auto simp: d' p dict_keys_def)
    qed
  qed
qed

lemma get_steps_of_list:
  "map (dict_get store) ids = map Inr docs \<Longrightarrow> get_steps store (of_list ids) = of_list docs"
proof (induction ids arbitrary: docs)
  case Nil
  then show ?case by simp
next
  case (Cons i ids)
  then obtain d ds where docs: "docs = d # ds" by (cases docs) auto
  with Cons.prems have hd: "dict_get store i = Inr d" and tl: "map (dict_get store) ids = map Inr ds"
    by simp_all
  from Cons.IH [OF tl] show ?case by (simp add: docs hd)
qed

lemma upsert_loop_eq:
  "fst (upsert_loop ps store acc) = acc @ map fst ps"
  by (induction ps store acc rule: upsert_loop.induct) simp_all

lemma delete_loop_step:
  "delete_loop (of_list (i # ids)) store s f =
     (case dict_del store i of
        Inl e \<Rightarrow> delete_loop (of_list ids) store s (f @ [i])
      | Inr store' \<Rightarrow> delete_loop (of_list ids) store' (s @ [i]) f)"
  by simp

lemma delete_loop_returns:
  "\<exists>r store'. delete_loop (of_list ids) store s f = (Inr r, store')"
proof (induction ids arbitrary: store s f)
  case Nil
  show ?case by simp
next
  case (Cons i ids)
  show ?case
  proof (cases "dict_del store i")
    case (Inl e)
    with Cons.IH [of store s "f @ [i]"] show ?thesis by (simp only: delete_loop_step sum.case)
  next
    case (Inr st2)
    with Cons.IH [of st2 "s @ [i]" f] show ?thesis by (simp only: delete_loop_step sum.case)
  qed
qed

lemma delete_loop_union:
  "delete_loop (of_list ids) store s f = (Inr r, store') \<Longrightarrow>
     set (succeeded r) \<union> set (failed r) = set s \<union> set f \<union> set ids"
proof (induction ids arbitrary: store s f)
  case Nil
  then show ?case by auto
next
  case (Cons i ids)
  show ?case
  proof (cases "dict_del store i")
    case (Inl e)
    with Cons.prems have "delete_loop (of_list ids) store s (f @ [i]) = (Inr r, store')" by simp
    from Cons.IH [OF this] show ?thesis by auto
  next
    case (Inr st2)
    with Cons.prems have "delete_loop (of_list ids) st2 (s @ [i]) f = (Inr r, store')" by simp
    from Cons.IH [OF this] show ?thesis by auto
  qed
qed

lemma delete_loop_disjoint:
  "delete_loop (of_list ids) store s f = (Inr r, store') \<Longrightarrow> distinct ids \<Longrightarrow>
     set ids \<inter> (set s \<union> set f) = {} \<Longrightarrow> set s \<inter> set f = {} \<Longrightarrow>
     set (succeeded r) \<inter> set (failed r) = {}"
proof (induction ids arbitrary: store s f)
  case Nil
  then show ?case by auto
next
  case (Cons i ids)
  from Cons.prems have d: "distinct ids" and ni: "i \<notin> set ids" by simp_all
  from Cons.prems have nis: "i \<notin> set s" and nif: "i \<notin> set f" by auto
  from Cons.prems have rest: "set ids \<inter> (set s \<union> set f) = {}" by auto
  show ?case
  proof (cases "dict_del store i")
    case (Inl e)
    with Cons.prems have run: "delete_loop (of_list ids) store s (f @ [i]) = (Inr r, store')" by simp
    have a: "set ids \<inter> (set s \<union> set (f @ [i])) = {}" using rest ni by auto
    have b: "set s \<inter> set (f @ [i]) = {}" using Cons.prems(4) nis by auto
    from run d a b show ?thesis by (rule Cons.IH)
  next
    case (Inr st2)
    with Cons.prems have run: "delete_loop (of_list ids) st2 (s @ [i]) f = (Inr r, store')" by simp
    have a: "set ids \<inter> (set (s @ [i]) \<union> set f) = {}" using rest ni by auto
    have b: "set (s @ [i]) \<inter> set f = {}" using Cons.prems(4) nif by auto
    from run d a b show ?thesis by (rule Cons.IH)
  qed
qed

lemma delete_loop_failed_mono:
  "delete_loop (of_list ids) store s f = (Inr r, store') \<Longrightarrow> set f \<subseteq> set (failed r)"
proof (induction ids arbitrary: store s f)
  case Nil
  then show ?case by auto
next
  case (Cons i ids)
  show ?case
  proof (cases "dict_del store i")
    case (Inl e)
    with Cons.prems have "delete_loop (of_list ids) store s (f @ [i]) = (Inr r, store')" by simp
    from Cons.IH [OF this] show ?thesis by auto
  next
    case (Inr st2)
    with Cons.prems have "delete_loop (of_list ids) st2 (s @ [i]) f = (Inr r, store')" by simp
    from Cons.IH [OF this] show ?thesis by auto
  qed
qed

lemma delete_loop_unknown:
  "delete_loop (of_list ids) store s f = (Inr r, store') \<Longrightarrow> i \<in> set ids \<Longrightarrow>
     i \<notin> set (dict_keys store) \<Longrightarrow> i \<in> set (failed r)"
proof (induction ids arbitrary: store s f)
  case Nil
  then show ?case by simp
next
  case (Cons j ids)
  show ?case
  proof (cases "dict_del store j")
    case (Inl e)
    with Cons.prems have run: "delete_loop (of_list ids) store s (f @ [j]) = (Inr r, store')" by simp
    show ?thesis
    proof (cases "i = j")
      case True
      with delete_loop_failed_mono [OF run] show ?thesis by auto
    next
      case False
      with Cons.prems have "i \<in> set ids" by simp
      with run show ?thesis using Cons.prems(3) by (rule Cons.IH)
    qed
  next
    case (Inr st2)
    with Cons.prems have run: "delete_loop (of_list ids) st2 (s @ [j]) f = (Inr r, store')" by simp
    from Inr have "j \<in> set (dict_keys store)" using dict_del_Inl [of store j] by auto
    with Cons.prems have "i \<noteq> j" by auto
    with Cons.prems have mem: "i \<in> set ids" by simp
    from dict_del_keys [OF Inr] Cons.prems(3) have "i \<notin> set (dict_keys st2)" by auto
    with run mem show ?thesis by (rule Cons.IH)
  qed
qed

lemma delete_by_filter_NameError:
  "delete_by_filter self st filters kwargs = ([], Inl (NameError ''ids''), st)"
  by (simp add: delete_by_filter_def load_name_def module_names_def)

lemma aget_by_ids_sync_TypeError:
  "lazy_get_by_ids self st ids = Inr (Iterable g) \<Longrightarrow>
     aget_by_ids self st ids = Inl (TypeError ''async for requires an object with __aiter__ method'')"
  by (simp add: aget_by_ids_def alazy_get_by_ids_def run_in_executor_def async_for_append_def)

lemma without_ids_ValueError:
  "lazy_get self st None filters kwargs = ([], Inl (ValueError ''Must provide ids to get.''))"
  "alazy_get self st None filters kwargs = ([], Inl (ValueError ''Must provide ids to get.''))"
  "get self st None filters kwargs = ([], Inl (ValueError ''Must provide ids to get.''))"
  "aget self st None filters kwargs = ([], Inl (ValueError ''Must provide ids to get.''))"
  "adelete self st None filters kwargs = ([], Inl (ValueError ''Must provide ids to delete.''), st)"
  by (simp_all add: lazy_get_def alazy_get_def get_def aget_def adelete_def)

lemma warning_iff:
  "fst (lazy_get self st (Some ids) filters kwargs) \<noteq> [] \<longleftrightarrow> truthy filters \<or> kwargs \<noteq> []"
  "fst (alazy_get self st (Some ids) filters kwargs) \<noteq> [] \<longleftrightarrow> truthy filters \<or> kwargs \<noteq> []"
  "fst (adelete self st (Some ids) filters kwargs) \<noteq> [] \<longleftrightarrow> truthy filters \<or> kwargs \<noteq> []"
  by (auto simp: lazy_get_def alazy_get_def adelete_def Let_def dict_display_not_Nil
        split: option.splits prod.splits)

text \<open>After the checks, the filtered operations use the identifiers only.\<close>

lemma ids_only_delegation:
  "snd (lazy_get self st (Some ids) filters kwargs) = lazy_get_by_ids self st ids"
  "snd (alazy_get self st (Some ids) filters kwargs) = lazy_get_by_ids self st ids"
  "snd (get self st (Some ids) filters kwargs) = get_by_ids self st ids"
  "snd (aget self st (Some ids) filters kwargs) = aget_by_ids self st ids"
  by (simp_all add: lazy_get_def alazy_get_def get_def aget_def get_by_ids_def aget_by_ids_def
        alazy_get_by_ids_def run_in_executor_def Let_def split: sum.splits)

lemma adelete_delegation:
  "adelete_by_ids self = Some f \<Longrightarrow> snd (adelete self st (Some ids) filters kwargs) = f st ids"
  "adelete_by_ids self = None \<Longrightarrow>
     snd (adelete self st (Some ids) filters kwargs) = (Inl (AttributeError ''adelete_by_ids''), st)"
  by (simp_all add: adelete_def Let_def split: prod.splits)

lemma map_fst_zip_le: "length xs \<le> length ys \<Longrightarrow> map fst (zip xs ys) = xs"
  by (induction xs arbitrary: ys) (auto simp: Suc_le_length_iff)

lemma DictIndex_upsert_succeeded:
  "fst (DictIndex_upsert uuids store documents (Some (i # is)) kwargs)
     = Response (map fst (zip (i # is) documents)) []"
  by (simp add: DictIndex_upsert_def upsert_loop_eq [of _ _ "[]", simplified] split: prod.splits)
     (metis upsert_loop_eq append_Nil fst_conv)

section \<open>The claims\<close>

text \<open>
  Claim C1 (async/sync equivalence): awaiting \<^verbatim>\<open>aget_by_ids(ids)\<close> returns the list that
  \<^verbatim>\<open>get_by_ids(ids)\<close> returns on the same backend state. On the code this fails: with the
  store \<^verbatim>\<open>{"x": D}\<close>, \<^verbatim>\<open>get_by_ids(["x"])\<close> returns \<^verbatim>\<open>[D]\<close>, while \<^verbatim>\<open>aget_by_ids\<close> raises
  \<^verbatim>\<open>TypeError\<close>, for an async and for a plain sequence of identifiers alike:
  \<^verbatim>\<open>alazy_get_by_ids\<close> hands back the synchronous generator of \<^verbatim>\<open>lazy_get_by_ids\<close> as it is,
  and \<^verbatim>\<open>async for\<close> cannot iterate it.
\<close>

theorem aget_by_ids_raises_type_error:
  "get_by_ids DictIndex [(''x'', Document ''D'')] (ids_list [''x'']) = Inr [Document ''D''] \<and>
   aget_by_ids DictIndex [(''x'', Document ''D'')] (ids_async [''x''])
     = Inl (TypeError ''async for requires an object with __aiter__ method'') \<and>
   aget_by_ids DictIndex [(''x'', Document ''D'')] (ids_list [''x''])
     = Inl (TypeError ''async for requires an object with __aiter__ method'')"
  by (simp add: get_by_ids_def aget_by_ids_def alazy_get_by_ids_def run_in_executor_def
        DictIndex_def DictIndex_lazy_get_by_ids_def ids_list_def ids_async_def py_list_def
        async_for_append_def)

text \<open>
  Claim C2: every default filtered operation fails with \<^verbatim>\<open>ValueError\<close> when no identifiers
  are supplied. \<^verbatim>\<open>lazy_get\<close>, \<^verbatim>\<open>alazy_get\<close>, \<^verbatim>\<open>get\<close>, \<^verbatim>\<open>aget\<close> and \<^verbatim>\<open>adelete\<close> do
  (\<open>without_ids_ValueError\<close>). \<^verbatim>\<open>delete_by_filter(filters={"k": "v"})\<close> raises \<^verbatim>\<open>NameError\<close>
  instead, where its sibling \<^verbatim>\<open>adelete\<close> raises the \<^verbatim>\<open>ValueError\<close> its docstring promises.
\<close>

theorem delete_by_filter_without_ids_name_error:
  "delete_by_filter DictIndex [(''1'', Document ''D'')] (PyDict [(''k'', PyStr ''v'')]) []
     = ([], Inl (NameError ''ids''), [(''1'', Document ''D'')]) \<and>
   adelete DictIndex [(''1'', Document ''D'')] None (PyDict [(''k'', PyStr ''v'')]) []
     = ([], Inl (ValueError ''Must provide ids to delete.''), [(''1'', Document ''D'')])"
  by (simp add: delete_by_filter_def load_name_def module_names_def adelete_def)

text \<open>
  Claim C3: with identifiers supplied, the default filtered delete delegates to the
  identifier-based delete and returns its response. \<^verbatim>\<open>delete_by_filter(ids=["1"])\<close> on the
  store \<^verbatim>\<open>{"1": D}\<close> raises \<^verbatim>\<open>NameError\<close> and leaves the store as it was, whereas
  \<^verbatim>\<open>delete_by_ids(["1"])\<close> answers \<^verbatim>\<open>{succeeded: ["1"], failed: []}\<close> and empties the store.
  \<^verbatim>\<open>adelete\<close> delegates to \<^verbatim>\<open>adelete_by_ids\<close> where the backend has one (\<open>adelete_delegation\<close>).
\<close>

theorem delete_by_filter_with_ids_name_error:
  "delete_by_filter DictIndex [(''1'', Document ''D'')] PyNone [(''ids'', PyList [PyStr ''1''])]
     = ([], Inl (NameError ''ids''), [(''1'', Document ''D'')]) \<and>
   delete_by_ids DictIndex [(''1'', Document ''D'')] (ids_list [''1''])
     = (Inr (Response [''1''] []), [])"
  by (simp add: delete_by_filter_def load_name_def module_names_def DictIndex_def
        DictIndex_delete_by_ids_def ids_list_def)

text \<open>
  Claim C4: \<^verbatim>\<open>get\<close> with identifiers and a non-empty filter emits one warning, whose
  \<^verbatim>\<open>kwargs\<close> hold the filter under the key \<^verbatim>\<open>"filters"\<close>, and returns what \<^verbatim>\<open>get\<close> returns
  with the same identifiers and no filter, which for no other keyword arguments emits no
  warning.
\<close>

theorem get_with_filter_warns_same_result:
  "truthy filters \<Longrightarrow>
     fst (get self st (Some ids) filters kwargs)
       = [only_ids_warning (dict_display ''filters'' filters kwargs)] \<and>
     snd (get self st (Some ids) filters kwargs) = snd (get self st (Some ids) PyNone kwargs) \<and>
     dict_display ''filters'' filters [] = [(''filters'', filters)] \<and>
     fst (get self st (Some ids) PyNone []) = []"
  by (simp add: get_def lazy_get_def Let_def dict_display_not_Nil dict_display_empty
        split: sum.splits)

text \<open>The theorem of claim C4 on a concrete input.\<close>

theorem get_with_filter_warns_same_result_witness:
  "truthy (PyDict [(''k'', PyStr ''v'')]) \<and>
   get DictIndex [(''x'', Document ''D'')] (Some (ids_list [''x''])) (PyDict [(''k'', PyStr ''v'')]) []
     = ([only_ids_warning [(''filters'', PyDict [(''k'', PyStr ''v'')])]], Inr [Document ''D'']) \<and>
   get DictIndex [(''x'', Document ''D'')] (Some (ids_list [''x''])) PyNone []
     = ([], Inr [Document ''D''])"
  using get_with_filter_warns_same_result [of "PyDict [(''k'', PyStr ''v'')]" DictIndex "[(''x'', Document ''D'')]" "ids_list [''x'']" "[]"]
  by (simp add: get_def lazy_get_def dict_display_def DictIndex_def DictIndex_lazy_get_by_ids_def
        ids_list_def py_list_def)

text \<open>
  Claim C5: \<^verbatim>\<open>get_by_ids(ids)\<close> is the full materialisation of the lazy sequence of
  \<^verbatim>\<open>lazy_get_by_ids(ids)\<close>: the list of the items the sequence yields, in the order it
  yields them, when the sequence ends; the exception it raises otherwise.
\<close>

theorem get_by_ids_materializes_lazy:
  "get_by_ids self st ids =
     (case lazy_get_by_ids self st ids of
        Inl e \<Rightarrow> Inl e
      | Inr (Iterable g) \<Rightarrow> (case raised g of None \<Rightarrow> Inr (yielded g) | Some e \<Rightarrow> Inl e)
      | Inr (AsyncIterable g) \<Rightarrow> Inl (TypeError ''object is not iterable''))"
  by (simp add: get_by_ids_def py_list_def drain_raised split: sum.splits iterable.splits option.splits)

text \<open>
  Claim C6 as stated (the two lists partition the submitted identifiers, for every sequence
  submitted to upsert or delete) fails on \<^verbatim>\<open>DictIndex\<close>: deleting \<^verbatim>\<open>["1", "1"]\<close> from
  \<^verbatim>\<open>{"1": D}\<close> reports \<^verbatim>\<open>"1"\<close> as succeeded and as failed; upserting one document under
  \<^verbatim>\<open>["1", "2"]\<close> reports \<^verbatim>\<open>"2"\<close> in neither list; upserting under \<^verbatim>\<open>[]\<close> reports a generated
  identifier that was not submitted.
\<close>

theorem response_partition_counterexample:
  "delete_by_ids DictIndex [(''1'', Document ''D'')] (ids_list [''1'', ''1''])
     = (Inr (Response [''1''] [''1'']), []) \<and>
   set (succeeded (Response [''1''] [''1''])) \<inter> set (failed (Response [''1''] [''1''])) \<noteq> {} \<and>
   DictIndex_upsert sample_uuids [] [Document ''D''] (Some [''1'', ''2'']) []
     = (Response [''1''] [], [(''1'', Document ''D'')]) \<and>
   set (succeeded (Response [''1''] [])) \<union> set (failed (Response [''1''] [])) \<noteq> set [''1'', ''2''] \<and>
   DictIndex_upsert sample_uuids [] [Document ''D''] (Some []) []
     = (Response [''u''] [], [(''u'', Document ''D'')]) \<and>
   set (succeeded (Response [''u''] [])) \<union> set (failed (Response [''u''] [])) \<noteq> set []"
  by (simp add: DictIndex_def DictIndex_delete_by_ids_def ids_list_def DictIndex_upsert_def
        sample_uuids_def)

text \<open>
  Claim C6, amended: \<^verbatim>\<open>delete_by_ids\<close> returns a response whose \<^verbatim>\<open>succeeded\<close> and \<^verbatim>\<open>failed\<close>
  lists together hold exactly the submitted identifiers, and the two lists are disjoint
  when no identifier is submitted twice. \<^verbatim>\<open>upsert\<close> with a non-empty list of identifiers
  that is no longer than the documents answers \<^verbatim>\<open>succeeded\<close> equal to the submitted
  identifiers and \<^verbatim>\<open>failed\<close> empty.
\<close>

theorem response_partition_amended:
  "(\<exists>r store'. delete_by_ids DictIndex store (ids_list ids) = (Inr r, store') \<and>
      set (succeeded r) \<union> set (failed r) = set ids \<and>
      (distinct ids \<longrightarrow> set (succeeded r) \<inter> set (failed r) = {})) \<and>
   (ids \<noteq> [] \<and> length ids \<le> length documents \<longrightarrow>
      fst (DictIndex_upsert uuids store documents (Some ids) kwargs) = Response ids [])"
proof (intro conjI impI)
  obtain r store' where run: "delete_loop (of_list ids) store [] [] = (Inr r, store')"
    using delete_loop_returns by blast
  have u: "set (succeeded r) \<union> set (failed r) = set ids"
    using delete_loop_union [OF run] by simp
  have d: "distinct ids \<longrightarrow> set (succeeded r) \<inter> set (failed r) = {}"
    using delete_loop_disjoint [OF run] by simp
  from run u d
  show "\<exists>r store'. delete_by_ids DictIndex store (ids_list ids) = (Inr r, store') \<and>
      set (succeeded r) \<union> set (failed r) = set ids \<and>
      (distinct ids \<longrightarrow> set (succeeded r) \<inter> set (failed r) = {})"
    by (simp add: DictIndex_def DictIndex_delete_by_ids_def ids_list_def)
next
  assume a: "ids \<noteq> [] \<and> length ids \<le> length documents"
  then obtain i rest where ids: "ids = i # rest" by (cases ids) auto
  from a have "map fst (zip ids documents) = ids" by (simp add: map_fst_zip_le)
  then show "fst (DictIndex_upsert uuids store documents (Some ids) kwargs) = Response ids []"
    using DictIndex_upsert_succeeded [of uuids store documents i rest kwargs] by (simp add: ids)
qed

text \<open>The theorem of claim C6 on a concrete input.\<close>

theorem response_partition_amended_witness:
  "distinct [''1'', ''3''] \<and> [''1'', ''3''] \<noteq> [] \<and>
   length [''1'', ''3''] \<le> length [Document ''A'', Document ''B''] \<and>
   (\<exists>r store'. delete_by_ids DictIndex [(''1'', Document ''D'')] (ids_list [''1'', ''3'']) = (Inr r, store') \<and>
      set (succeeded r) \<union> set (failed r) = set [''1'', ''3''] \<and>
      set (succeeded r) \<inter> set (failed r) = {}) \<and>
   fst (DictIndex_upsert sample_uuids [(''1'', Document ''D'')] [Document ''A'', Document ''B'']
          (Some [''1'', ''3'']) [])
     = Response [''1'', ''3''] []"
  using response_partition_amended [of "[(''1'', Document ''D'')]" "[''1'', ''3'']" "[Document ''A'', Document ''B'']" sample_uuids "[]"]
  by simp

text \<open>
  Claim C7: \<^verbatim>\<open>lazy_get_by_ids\<close> and \<^verbatim>\<open>get_by_ids\<close> return the documents in the order the
  identifiers were requested: when \<open>docs\<close> are, position by position, the documents stored
  under \<open>ids\<close>, the lazy sequence yields exactly \<open>docs\<close> and the eager get returns \<open>docs\<close>.
\<close>

theorem get_by_ids_request_order:
  "map (dict_get store) ids = map Inr docs \<Longrightarrow>
     lazy_get_by_ids DictIndex store (ids_list ids) = Inr (Iterable (of_list docs)) \<and>
     get_by_ids DictIndex store (ids_list ids) = Inr docs"
  by (simp add: get_by_ids_def DictIndex_def DictIndex_lazy_get_by_ids_def ids_list_def
        py_list_def get_steps_of_list drain_of_list)

text \<open>The theorem of claim C7 on a concrete input.\<close>

theorem get_by_ids_request_order_witness:
  "snd (DictIndex_upsert sample_uuids [] [Document ''A'', Document ''B'', Document ''C'']
          (Some [''a'', ''b'', ''c'']) [])
     = [(''a'', Document ''A''), (''b'', Document ''B''), (''c'', Document ''C'')] \<and>
   map (dict_get [(''a'', Document ''A''), (''b'', Document ''B''), (''c'', Document ''C'')])
       [''b'', ''a'', ''c'']
     = map Inr [Document ''B'', Document ''A'', Document ''C''] \<and>
   get_by_ids DictIndex [(''a'', Document ''A''), (''b'', Document ''B''), (''c'', Document ''C'')]
       (ids_list [''b'', ''a'', ''c''])
     = Inr [Document ''B'', Document ''A'', Document ''C'']"
  using get_by_ids_request_order [of "[(''a'', Document ''A''), (''b'', Document ''B''), (''c'', Document ''C'')]"
               "[''b'', ''a'', ''c'']" "[Document ''B'', Document ''A'', Document ''C'']"]
  by (simp add: DictIndex_upsert_def)

text \<open>
  Claim C8: \<^verbatim>\<open>delete_by_ids\<close> returns a response for every list of identifiers, and every
  identifier that is not a key of the store is in its \<^verbatim>\<open>failed\<close> list.
\<close>

theorem delete_by_ids_unknown_reported_failed:
  "\<exists>r store'. delete_by_ids DictIndex store (ids_list ids) = (Inr r, store') \<and>
     (\<forall>i \<in> set ids. i \<notin> set (dict_keys store) \<longrightarrow> i \<in> set (failed r))"
proof -
  obtain r store' where run: "delete_loop (of_list ids) store [] [] = (Inr r, store')"
    using delete_loop_returns by blast
  have "\<forall>i \<in> set ids. i \<notin> set (dict_keys store) \<longrightarrow> i \<in> set (failed r)"
    using delete_loop_unknown [OF run] by blast
  with run show ?thesis
    by (simp add: DictIndex_def DictIndex_delete_by_ids_def ids_list_def)
qed

text \<open>The theorem of claim C8 on a concrete input.\<close>

theorem delete_by_ids_unknown_reported_failed_witness:
  "''3'' \<in> set [''1'', ''3''] \<and>
   ''3'' \<notin> set (dict_keys [(''1'', Document ''A''), (''2'', Document ''B'')]) \<and>
   (\<exists>r store'. delete_by_ids DictIndex [(''1'', Document ''A''), (''2'', Document ''B'')]
        (ids_list [''1'', ''3'']) = (Inr r, store') \<and> ''3'' \<in> set (failed r)) \<and>
   delete_by_ids DictIndex [(''1'', Document ''A''), (''2'', Document ''B'')] (ids_list [''1'', ''3''])
     = (Inr (Response [''1''] [''3'']), [(''2'', Document ''B'')])"
  using delete_by_ids_unknown_reported_failed [of "[(''1'', Document ''A''), (''2'', Document ''B'')]" "[''1'', ''3'']"]
  by (simp add: DictIndex_def DictIndex_delete_by_ids_def ids_list_def dict_keys_def)

text \<open>
  Claim C9: in the default filtered get and delete operations the warning is emitted exactly
  when the remaining keyword arguments, a folded-in filter included, are not empty. With
  identifiers supplied, \<^verbatim>\<open>lazy_get\<close>, \<^verbatim>\<open>alazy_get\<close> and \<^verbatim>\<open>adelete\<close> behave so (\<open>warning_iff\<close>).
  \<^verbatim>\<open>delete_by_filter(ids=["1"], filters={"k": "v"})\<close> emits no warning and does not proceed:
  it raises \<^verbatim>\<open>NameError\<close>, where \<^verbatim>\<open>lazy_get\<close> on the same arguments warns and delegates.
\<close>

theorem delete_by_filter_emits_no_warning:
  "delete_by_filter DictIndex [(''1'', Document ''D'')] (PyDict [(''k'', PyStr ''v'')])
       [(''ids'', PyList [PyStr ''1''])]
     = ([], Inl (NameError ''ids''), [(''1'', Document ''D'')]) \<and>
   lazy_get DictIndex [(''1'', Document ''D'')] (Some (ids_list [''1''])) (PyDict [(''k'', PyStr ''v'')]) []
     = ([only_ids_warning [(''filters'', PyDict [(''k'', PyStr ''v'')])]],
        Inr (Iterable (Yield (Document ''D'') Stop)))"
  by (simp add: delete_by_filter_def load_name_def module_names_def lazy_get_def
        dict_display_def DictIndex_def DictIndex_lazy_get_by_ids_def ids_list_def)

text \<open>
  Claim C10: only \<^verbatim>\<open>ids=None\<close> is rejected. With \<^verbatim>\<open>ids=[]\<close>, no filter and no other keyword
  argument, \<^verbatim>\<open>lazy_get\<close> and \<^verbatim>\<open>get\<close> emit no warning and pass the empty sequence on to
  \<^verbatim>\<open>lazy_get_by_ids\<close> and \<^verbatim>\<open>get_by_ids\<close>; on \<^verbatim>\<open>DictIndex\<close>, \<^verbatim>\<open>get\<close> returns the empty list.
\<close>

theorem get_empty_ids_no_error:
  "lazy_get self st (Some (ids_list [])) PyNone [] = ([], lazy_get_by_ids self st (ids_list [])) \<and>
   get self st (Some (ids_list [])) PyNone [] = ([], get_by_ids self st (ids_list [])) \<and>
   lazy_get DictIndex store (Some (ids_list [])) PyNone [] = ([], Inr (Iterable Stop)) \<and>
   get DictIndex store (Some (ids_list [])) PyNone [] = ([], Inr [])"
  by (simp add: get_def lazy_get_def get_by_ids_def DictIndex_def DictIndex_lazy_get_by_ids_def
        ids_list_def py_list_def split: sum.splits)

end
